theory Spec2Isabelle
  imports Main
begin

section \<open>The messaging API as the samples see it\<close>

text \<open>
  The two samples, \<^verbatim>\<open>QueueProducer.js\<close> and the guaranteed requestor, are event-driven
  glue around the \<^verbatim>\<open>solclientjs\<close> library. Each sample is a JavaScript object with a few
  fields and a set of functions that call the library and are called back by it.

  The embedding keeps the object's fields in a record and threads it through every
  function. Everything a function does to the outside world (a console line, a library
  call, a timer) is appended to the \<open>effects\<close> trace in program order, so that ordering
  properties can be read off the trace. The library itself is not part of the repository:
  what it returns, whether a call throws and what the clock shows are taken from an \<open>sdk\<close>
  parameter, over which every theorem quantifies.
\<close>

datatype DestinationType = QUEUE | TOPIC | TEMPORARY_QUEUE

datatype Destination = Destination string DestinationType

datatype MessageDeliveryModeType = DIRECT | PERSISTENT | NON_PERSISTENT

text \<open>A message with the five attributes the samples set or read; \<open>None\<close> is \<^verbatim>\<open>null\<close>.\<close>

record Message =
  destination :: "Destination option"
  binaryAttachment :: "string option"
  deliveryMode :: MessageDeliveryModeType
  replyTo :: "Destination option"
  correlationId :: "string option"

definition setDestination :: "Destination \<Rightarrow> Message \<Rightarrow> Message" where
  "setDestination d m = m\<lparr>destination := Some d\<rparr>"

definition setBinaryAttachment :: "string \<Rightarrow> Message \<Rightarrow> Message" where
  "setBinaryAttachment text m = m\<lparr>binaryAttachment := Some text\<rparr>"

definition setDeliveryMode :: "MessageDeliveryModeType \<Rightarrow> Message \<Rightarrow> Message" where
  "setDeliveryMode mode m = m\<lparr>deliveryMode := mode\<rparr>"

definition setReplyTo :: "Destination \<Rightarrow> Message \<Rightarrow> Message" where
  "setReplyTo d m = m\<lparr>replyTo := Some d\<rparr>"

definition setCorrelationId :: "string option \<Rightarrow> Message \<Rightarrow> Message" where
  "setCorrelationId c m = m\<lparr>correlationId := c\<rparr>"

definition getCorrelationId :: "Message \<Rightarrow> string option" where
  "getCorrelationId m = correlationId m"

definition getBinaryAttachment :: "Message \<Rightarrow> string option" where
  "getBinaryAttachment m = binaryAttachment m"

text \<open>The four session properties \<^verbatim>\<open>connectToSolace\<close> assigns.\<close>

record SessionProperties =
  url :: string
  vpnName :: string
  userName :: string
  password :: string

text \<open>Session and flow objects are handles: the n-th object the library returned.\<close>

type_synonym Session = nat

type_synonym Flow = nat

datatype SessionEventCode = UP_NOTICE | CONNECTING | DISCONNECTED

datatype FlowEventName = UP | MESSAGE

text \<open>
  What the library and the Node.js runtime call back with: a session event, one of the
  two flow events the requestor listens to, or the expiry of a timer.
\<close>

datatype event =
    SessionEmit Session SessionEventCode
  | FlowUp Flow
  | FlowMessage Flow Message
  | TimerFired

text \<open>
  The trace. \<open>Dispatch\<close> marks the moment a callback starts to run, \<open>Uncaught\<close> an
  exception that left a callback; the other entries are calls the sample makes.
  \<open>SetTimeout ms\<close> is \<^verbatim>\<open>setTimeout(function () { process.exit(); }, ms)\<close>, the only timer
  in either file.
\<close>

datatype thrown = TypeError | SdkError string

datatype effect =
    ConsoleLog string
  | CreateSession SessionProperties
  | SessionConnect Session
  | SessionSend Session Message
  | SessionDisconnect Session
  | SessionDispose Session
  | CreateTemporaryQueue Session
  | CreateSubscriberFlow Session Destination
  | FlowConnect Flow
  | SetTimeout nat
  | ProcessExit
  | Dispatch event
  | Uncaught thrown

text \<open>
  The library as a parameter. \<open>throws\<close> is asked right after a call has been appended to
  the trace and answers with the text of the error the call throws, if it throws; it is
  consulted for \<^verbatim>\<open>session.connect\<close>, \<^verbatim>\<open>session.send\<close> and \<^verbatim>\<open>session.disconnect\<close>, the calls
  the samples themselves guard with \<^verbatim>\<open>try\<close>. Factory calls, handler registration,
  \<^verbatim>\<open>createTemporaryQueue\<close>, \<^verbatim>\<open>createSubscriberFlow\<close>, \<^verbatim>\<open>flow.connect\<close> and \<^verbatim>\<open>dispose\<close> are
  taken to return. \<open>now\<close> is the wall clock (hours, minutes, seconds) read by the logger.
\<close>

record sdk =
  createMessage :: Message
  createTemporaryQueue :: "effect list \<Rightarrow> Destination"
  throws :: "effect list \<Rightarrow> string option"
  dump :: "Message \<Rightarrow> string"
  now :: "effect list \<Rightarrow> nat \<times> nat \<times> nat"

section \<open>What both samples share\<close>

text \<open>The fields both objects have, and the trace of the process they run in.\<close>

record sample =
  session :: "Session option"
  effects :: "effect list"

text \<open>Decimal rendering of a number, as string concatenation in JavaScript gives it.\<close>

fun dec :: "nat \<Rightarrow> string" where
  "dec n = (if n < 10 then [char_of (48 + n)]
            else dec (n div 10) @ [char_of (48 + n mod 10)])"

declare dec.simps [simp del]

text \<open>\<^verbatim>\<open>('0' + n).slice(-2)\<close>\<close>

definition pad2 :: "nat \<Rightarrow> string" where
  "pad2 n = (let s = ''0'' @ dec n in drop (length s - 2) s)"

definition timestamp :: "nat \<times> nat \<times> nat \<Rightarrow> string" where
  "timestamp t = (case t of (h, m, s) \<Rightarrow>
     ''['' @ pad2 h @ '':'' @ pad2 m @ '':'' @ pad2 s @ ''] '')"

text \<open>\<^verbatim>\<open>producer.log\<close> and \<^verbatim>\<open>requestor.log\<close> are the same function.\<close>

definition log :: "sdk \<Rightarrow> string \<Rightarrow> 'a sample_scheme \<Rightarrow> 'a sample_scheme" where
  "log env line p =
     p\<lparr>effects := effects p @ [ConsoleLog (timestamp (now env (effects p)) @ line)]\<rparr>"

text \<open>The session objects created so far, and the reply queues of the flows created so far.\<close>

fun sessions :: "effect list \<Rightarrow> SessionProperties list" where
  "sessions [] = []"
| "sessions (CreateSession props # tr) = props # sessions tr"
| "sessions (e # tr) = sessions tr"

fun flows :: "effect list \<Rightarrow> Destination list" where
  "flows [] = []"
| "flows (CreateSubscriberFlow sess q # tr) = q # flows tr"
| "flows (e # tr) = flows tr"

fun isSetTimeout :: "effect \<Rightarrow> bool" where
  "isSetTimeout (SetTimeout ms) = True"
| "isSetTimeout e = False"

text \<open>
  \<^verbatim>\<open>connectToSolace\<close>, up to \<^verbatim>\<open>session.connect()\<close>. The session event listeners the function
  attaches between \<^verbatim>\<open>createSession\<close> and \<^verbatim>\<open>connect\<close> differ between the samples; they are
  the \<open>on...\<close> functions below, called by the \<open>step\<close> function of each sample.
\<close>

definition connectToSolace ::
  "sdk \<Rightarrow> string \<Rightarrow> string \<Rightarrow> string \<Rightarrow> string \<Rightarrow> 'a sample_scheme \<Rightarrow> 'a sample_scheme" where
  "connectToSolace env host username pass vpn p =
     (let p1 = log env (''Connecting to Solace message router using WebSocket transport url ws://'' @ host) p;
          p2 = log env (''Solace message router VPN name: '' @ vpn) p1;
          p3 = log env (''Client username: '' @ username) p2;
          sessionProperties = \<lparr>url = ''ws://'' @ host, vpnName = vpn,
                               userName = username, password = pass\<rparr>;
          sess = length (sessions (effects p3));
          p4 = p3\<lparr>session := Some sess,
                  effects := effects p3 @ [CreateSession sessionProperties]\<rparr>;
          p5 = p4\<lparr>effects := effects p4 @ [SessionConnect sess]\<rparr>
      in case throws env (effects p5) of
           None \<Rightarrow> p5
         | Some error \<Rightarrow> log env error p5)"

text \<open>\<^verbatim>\<open>disconnect\<close> and \<^verbatim>\<open>exit\<close> are the same in both files.\<close>

definition disconnect :: "sdk \<Rightarrow> 'a sample_scheme \<Rightarrow> 'a sample_scheme" where
  "disconnect env p =
     (let p1 = log env ''Disconnecting from Solace message router...'' p
      in case session p1 of
           Some sess \<Rightarrow>
             (let p2 = p1\<lparr>effects := effects p1 @ [SessionDisconnect sess]\<rparr>
              in case throws env (effects p2) of
                   None \<Rightarrow> p2
                 | Some error \<Rightarrow> log env error p2)
         | None \<Rightarrow> log env ''Not connected to Solace message router.'' p1)"

definition exit :: "sdk \<Rightarrow> 'a sample_scheme \<Rightarrow> 'a sample_scheme" where
  "exit env p =
     (let p1 = disconnect env p
      in p1\<lparr>effects := effects p1 @ [SetTimeout 1000]\<rparr>)"

text \<open>The listener for \<^verbatim>\<open>DISCONNECTED\<close>, the same in both files.\<close>

definition onDisconnected :: "sdk \<Rightarrow> 'a sample_scheme \<Rightarrow> 'a sample_scheme" where
  "onDisconnected env p =
     (let p1 = log env ''Disconnected.'' p
      in case session p1 of
           Some sess \<Rightarrow> p1\<lparr>session := None, effects := effects p1 @ [SessionDispose sess]\<rparr>
         | None \<Rightarrow> p1)"

text \<open>The timer callback: \<^verbatim>\<open>process.exit()\<close>.\<close>

definition onTimer :: "'a sample_scheme \<Rightarrow> 'a sample_scheme" where
  "onTimer p = p\<lparr>effects := effects p @ [ProcessExit]\<rparr>"

section \<open>The queue producer\<close>

record producer = sample +
  queueName :: string

definition QueueProducer :: "sdk \<Rightarrow> string \<Rightarrow> producer" where
  \<open>QueueProducer env name =
     log env (CHR 0x0A # ''*** Producer to queue "'' @ name @ ''" is ready to connect ***'')
       \<lparr>session = None, effects = [], queueName = name\<rparr>\<close>

definition producer_connect ::
  "sdk \<Rightarrow> string \<Rightarrow> string \<Rightarrow> string \<Rightarrow> string \<Rightarrow> producer \<Rightarrow> producer" where
  "producer_connect env host username pass vpn p =
     (if session p \<noteq> None then log env ''Already connected and ready to send messages.'' p
      else connectToSolace env host username pass vpn p)"

definition producer_run :: "sdk \<Rightarrow> string list \<Rightarrow> producer \<Rightarrow> producer" where
  "producer_run env argv p =
     (if length argv \<ge> 2 + 4
      then producer_connect env (hd (drop 2 argv)) (hd (drop 3 argv))
             (hd (drop 4 argv)) (hd (drop 5 argv)) p
      else log env (''Cannot connect: expecting all arguments'' @
             '' <host:port> <client-username> <client-password> <message-vpn>.'') p)"

definition sendMessage :: "sdk \<Rightarrow> producer \<Rightarrow> producer" where
  \<open>sendMessage env p =
     (case session p of
        Some sess \<Rightarrow>
          (let messageText = ''Sample Message'';
               message = createMessage env;
               p1 = log env (''Sending message "'' @ messageText @ ''" to queue "'' @
                             queueName p @ ''"...'') p;
               message = setDestination (Destination (queueName p1) QUEUE) message;
               message = setBinaryAttachment messageText message;
               message = setDeliveryMode PERSISTENT message;
               p2 = p1\<lparr>effects := effects p1 @ [SessionSend sess message]\<rparr>
           in case throws env (effects p2) of
                None \<Rightarrow> log env ''Message sent.'' p2
              | Some error \<Rightarrow> log env error p2)
      | None \<Rightarrow>
          log env ''Cannot send messages because not connected to Solace message router.'' p)\<close>

text \<open>The listener for \<^verbatim>\<open>UP_NOTICE\<close>.\<close>

definition producer_onUpNotice :: "sdk \<Rightarrow> producer \<Rightarrow> producer" where
  "producer_onUpNotice env p =
     (let p1 = log env ''=== Successfully connected and ready to send messages. ==='' p;
          p2 = sendMessage env p1
      in exit env p2)"

text \<open>
  One callback of the producer's process. A session emits only once it exists (its
  listeners are attached in the same synchronous block that creates it), a timer fires
  only once it is set, and nothing runs after \<^verbatim>\<open>process.exit()\<close>. The producer has no
  listener for \<^verbatim>\<open>CONNECTING\<close> and no flows.
\<close>

definition producer_step :: "sdk \<Rightarrow> event \<Rightarrow> producer \<Rightarrow> producer" where
  "producer_step env ev p =
     (if ProcessExit \<in> set (effects p) then p
      else case ev of
        SessionEmit sess code \<Rightarrow>
          if sess < length (sessions (effects p)) then
            (case code of
               UP_NOTICE \<Rightarrow> producer_onUpNotice env (p\<lparr>effects := effects p @ [Dispatch ev]\<rparr>)
             | DISCONNECTED \<Rightarrow> onDisconnected env (p\<lparr>effects := effects p @ [Dispatch ev]\<rparr>)
             | CONNECTING \<Rightarrow> p)
          else p
      | TimerFired \<Rightarrow>
          if list_ex isSetTimeout (effects p)
          then onTimer (p\<lparr>effects := effects p @ [Dispatch ev]\<rparr>)
          else p
      | FlowUp flow \<Rightarrow> p
      | FlowMessage flow message \<Rightarrow> p)"

text \<open>The script: build the producer for \<^verbatim>\<open>'tutorial/queue'\<close>, run it, then serve callbacks.\<close>

definition producer_main :: "sdk \<Rightarrow> string list \<Rightarrow> producer" where
  "producer_main env argv = producer_run env argv (QueueProducer env ''tutorial/queue'')"

definition producer_exec :: "sdk \<Rightarrow> string list \<Rightarrow> event list \<Rightarrow> producer" where
  "producer_exec env argv evs = foldl (\<lambda>p ev. producer_step env ev p) (producer_main env argv) evs"

section \<open>The guaranteed requestor\<close>

record requestor = sample +
  requestQueueName :: string
  correlationID :: "string option"

text \<open>
  The constructor logs \<^verbatim>\<open>requestor.topicName\<close>, a field the object never gets, so the line
  reads \<^verbatim>\<open>undefined\<close>.
\<close>

definition GuaranteedRequestor :: "sdk \<Rightarrow> string \<Rightarrow> requestor" where
  \<open>GuaranteedRequestor env name =
     log env (CHR 0x0A # ''*** requestor to topic "'' @ ''undefined'' @ ''" is ready to connect ***'')
       \<lparr>session = None, effects = [], requestQueueName = name, correlationID = None\<rparr>\<close>

definition requestor_connect ::
  "sdk \<Rightarrow> string \<Rightarrow> string \<Rightarrow> string \<Rightarrow> string \<Rightarrow> requestor \<Rightarrow> requestor" where
  "requestor_connect env host username pass vpn r =
     (if session r \<noteq> None then log env ''Already connected and ready to send requests.'' r
      else connectToSolace env host username pass vpn r)"

definition requestor_run :: "sdk \<Rightarrow> string list \<Rightarrow> requestor \<Rightarrow> requestor" where
  "requestor_run env argv r =
     (if length argv \<ge> 2 + 4
      then requestor_connect env (hd (drop 2 argv)) (hd (drop 3 argv))
             (hd (drop 4 argv)) (hd (drop 5 argv)) r
      else log env (''Cannot connect: expecting all arguments'' @
             '' <host:port> <client-username> <client-password> <message-vpn>.'') r)"

text \<open>
  \<^verbatim>\<open>request\<close>: create the temporary queue and the flow on it, attach the two flow
  listeners (\<open>onFlowUp\<close> and \<open>onFlowMessage\<close> below; the first closes over
  \<^verbatim>\<open>replyToQueue\<close>), and connect the flow. Nothing is sent here.
\<close>

definition request :: "sdk \<Rightarrow> requestor \<Rightarrow> requestor" where
  "request env r =
     (case session r of
        Some sess \<Rightarrow>
          (let replyToQueue = createTemporaryQueue env (effects r);
               r1 = r\<lparr>effects := effects r @ [CreateTemporaryQueue sess]\<rparr>;
               flow = length (flows (effects r1));
               r2 = r1\<lparr>effects := effects r1 @ [CreateSubscriberFlow sess replyToQueue]\<rparr>
           in r2\<lparr>effects := effects r2 @ [FlowConnect flow]\<rparr>)
      | None \<Rightarrow>
          log env ''Cannot send request because not connected to Solace message router.'' r)"

text \<open>
  The listener for the flow's \<^verbatim>\<open>UP\<close>. It does not test \<^verbatim>\<open>requestor.session\<close>: with a null
  session \<^verbatim>\<open>requestor.session.send\<close> is a \<^verbatim>\<open>TypeError\<close>, and an error thrown by \<^verbatim>\<open>send\<close> is
  not caught. The first component of the result is what left the listener, if anything.
\<close>

definition onFlowUp :: "sdk \<Rightarrow> Destination \<Rightarrow> requestor \<Rightarrow> thrown option \<times> requestor" where
  \<open>onFlowUp env replyToQueue r =
     (let msg = createMessage env;
          requestText = ''Sample Request'';
          r1 = log env (''Sending request "'' @ requestText @ ''" to request queue "'' @
                        requestQueueName r @ ''"...'') r;
          msg = setDestination (Destination (requestQueueName r1) QUEUE) msg;
          msg = setBinaryAttachment requestText msg;
          msg = setReplyTo replyToQueue msg;
          r2 = r1\<lparr>correlationID := Some ''MyCorrelationID''\<rparr>;
          msg = setCorrelationId (correlationID r2) msg;
          msg = setDeliveryMode PERSISTENT msg
      in case session r2 of
           None \<Rightarrow> (Some TypeError, r2)
         | Some sess \<Rightarrow>
             (let r3 = r2\<lparr>effects := effects r2 @ [SessionSend sess msg]\<rparr>
              in case throws env (effects r3) of
                   None \<Rightarrow> (None, r3)
                 | Some error \<Rightarrow> (Some (SdkError error), r3)))\<close>

text \<open>String concatenation with a value that may be \<^verbatim>\<open>null\<close>.\<close>

definition js_string :: "string option \<Rightarrow> string" where
  "js_string v = (case v of Some s \<Rightarrow> s | None \<Rightarrow> ''null'')"

text \<open>
  The listener for the flow's \<^verbatim>\<open>MESSAGE\<close>. The comparison is \<^verbatim>\<open>===\<close> on two values that are
  a string or absent; a message without a correlation identifier is taken to compare equal
  to a \<^verbatim>\<open>correlationID\<close> field that is still \<^verbatim>\<open>null\<close>. Both branches only print, and
  \<^verbatim>\<open>requestor.exit()\<close> follows them.
\<close>

definition onFlowMessage :: "sdk \<Rightarrow> Message \<Rightarrow> requestor \<Rightarrow> requestor" where
  \<open>onFlowMessage env message r =
     (let r1 = (if getCorrelationId message = correlationID r
                then log env (''Received reply: "'' @ js_string (getBinaryAttachment message) @
                              ''", details:'' @ [CHR 0x0A] @ dump env message) r
                else log env (''Received reply but correlation ID didn't match: "'' @
                              js_string (getBinaryAttachment message) @ ''",'' @
                              '' details:'' @ [CHR 0x0A] @ dump env message) r)
      in exit env r1)\<close>

text \<open>The session listeners for \<^verbatim>\<open>UP_NOTICE\<close> and \<^verbatim>\<open>CONNECTING\<close>.\<close>

definition requestor_onUpNotice :: "sdk \<Rightarrow> requestor \<Rightarrow> requestor" where
  "requestor_onUpNotice env r =
     (let r1 = log env ''=== Successfully connected and ready to send requests. ==='' r
      in request env r1)"

definition onConnecting :: "sdk \<Rightarrow> requestor \<Rightarrow> requestor" where
  "onConnecting env r = log env ''Connecting...'' r"

text \<open>
  One callback of the requestor's process. A flow emits only once it exists; its \<^verbatim>\<open>UP\<close>
  listener runs with the reply queue it was created on. An exception that leaves a
  listener is recorded and the process goes on: what the library does with it is not the
  sample's code, and a process that stopped there would have a prefix of this trace.
\<close>

definition requestor_step :: "sdk \<Rightarrow> event \<Rightarrow> requestor \<Rightarrow> requestor" where
  "requestor_step env ev r =
     (if ProcessExit \<in> set (effects r) then r
      else case ev of
        SessionEmit sess code \<Rightarrow>
          if sess < length (sessions (effects r)) then
            (case code of
               UP_NOTICE \<Rightarrow> requestor_onUpNotice env (r\<lparr>effects := effects r @ [Dispatch ev]\<rparr>)
             | CONNECTING \<Rightarrow> onConnecting env (r\<lparr>effects := effects r @ [Dispatch ev]\<rparr>)
             | DISCONNECTED \<Rightarrow> onDisconnected env (r\<lparr>effects := effects r @ [Dispatch ev]\<rparr>))
          else r
      | FlowUp flow \<Rightarrow>
          if flow < length (flows (effects r)) then
            (case onFlowUp env (flows (effects r) ! flow)
                    (r\<lparr>effects := effects r @ [Dispatch ev]\<rparr>) of
               (None, r1) \<Rightarrow> r1
             | (Some error, r1) \<Rightarrow> r1\<lparr>effects := effects r1 @ [Uncaught error]\<rparr>)
          else r
      | FlowMessage flow message \<Rightarrow>
          if flow < length (flows (effects r))
          then onFlowMessage env message (r\<lparr>effects := effects r @ [Dispatch ev]\<rparr>)
          else r
      | TimerFired \<Rightarrow>
          if list_ex isSetTimeout (effects r)
          then onTimer (r\<lparr>effects := effects r @ [Dispatch ev]\<rparr>)
          else r)"

text \<open>The script: the requestor for \<^verbatim>\<open>'tutorial/requestqueue'\<close>.\<close>

definition requestor_main :: "sdk \<Rightarrow> string list \<Rightarrow> requestor" where
  "requestor_main env argv =
     requestor_run env argv (GuaranteedRequestor env ''tutorial/requestqueue'')"

definition requestor_exec :: "sdk \<Rightarrow> string list \<Rightarrow> event list \<Rightarrow> requestor" where
  "requestor_exec env argv evs =
     foldl (\<lambda>r ev. requestor_step env ev r) (requestor_main env argv) evs"

section \<open>Reading the trace\<close>

text \<open>The messages handed to \<^verbatim>\<open>session.send\<close>, in order.\<close>

fun sent :: "effect list \<Rightarrow> Message list" where
  "sent [] = []"
| "sent (SessionSend sess m # tr) = m # sent tr"
| "sent (e # tr) = sent tr"

fun isConsoleLog :: "effect \<Rightarrow> bool" where
  "isConsoleLog (ConsoleLog text) = True"
| "isConsoleLog e = False"

fun isSessionDisconnect :: "effect \<Rightarrow> bool" where
  "isSessionDisconnect (SessionDisconnect sess) = True"
| "isSessionDisconnect e = False"

text \<open>The trace without its console lines: library calls, timers and callbacks.\<close>

definition calls :: "effect list \<Rightarrow> effect list" where
  "calls tr = filter (\<lambda>e. \<not> isConsoleLog e) tr"

text \<open>
  The requestor is waiting for a reply: a request is out, and it has neither started to
  disconnect nor armed the exit timer.
\<close>

definition still_pending :: "requestor \<Rightarrow> bool" where
  "still_pending r =
     (sent (effects r) \<noteq> [] \<and> \<not> list_ex isSessionDisconnect (effects r)
      \<and> \<not> list_ex isSetTimeout (effects r))"

text \<open>
  Every \<^verbatim>\<open>session.send\<close> in the trace comes after the \<^verbatim>\<open>UP\<close> of a flow that already
  existed and whose queue is the message's reply-to.
\<close>

definition up_before_send :: "effect list \<Rightarrow> bool" where
  "up_before_send tr =
     (\<forall>pre sess m post. tr = pre @ SessionSend sess m # post \<longrightarrow>
        (\<exists>flow < length (flows pre).
            Dispatch (FlowUp flow) \<in> set pre \<and> replyTo m = Some (flows pre ! flow)))"

text \<open>The line \<open>log\<close> would print for \<open>line\<close> at this point of the trace.\<close>

definition logged :: "sdk \<Rightarrow> effect list \<Rightarrow> string \<Rightarrow> effect" where
  "logged env tr line = ConsoleLog (timestamp (now env tr) @ line)"

section \<open>A concrete library and command line\<close>

text \<open>
  A library that accepts every call, one that rejects every guarded call, and a command
  line with the four arguments, for the concrete executions below.
\<close>

definition blank :: Message where
  "blank = \<lparr>destination = None, binaryAttachment = None, deliveryMode = DIRECT,
            replyTo = None, correlationId = None\<rparr>"

definition quiet_sdk :: sdk where
  "quiet_sdk = \<lparr>createMessage = blank,
      createTemporaryQueue = (\<lambda>tr. Destination (''#P2P/QTMP/'' @ dec (length (flows tr))) TEMPORARY_QUEUE),
      throws = (\<lambda>tr. None),
      dump = (\<lambda>m. ''(dump)''),
      now = (\<lambda>tr. (10, 51, 7))\<rparr>"

definition failing_sdk :: sdk where
  "failing_sdk = quiet_sdk\<lparr>throws := (\<lambda>tr. Some ''OperationError'')\<rparr>"

definition argv4 :: "string list" where
  "argv4 = [''node'', ''sample.js'', ''localhost:8008'', ''user'', ''secret'', ''default'']"

definition argv2 :: "string list" where
  "argv2 = [''node'', ''sample.js'', ''localhost:8008'', ''user'']"

definition connected_producer :: producer where
  "connected_producer = \<lparr>session = Some 0, effects = [], queueName = ''tutorial/queue''\<rparr>"

definition idle_requestor :: requestor where
  "idle_requestor = \<lparr>session = None, effects = [],
                      requestQueueName = ''tutorial/requestqueue'', correlationID = None\<rparr>"

text \<open>A reply whose correlation identifier is not the one the requestor sent.\<close>

definition stale_reply :: Message where
  "stale_reply = blank\<lparr>binaryAttachment := Some ''Echo'', correlationId := Some ''Stale''\<rparr>"

definition good_reply :: Message where
  "good_reply = blank\<lparr>binaryAttachment := Some ''Echo'',
                       correlationId := Some ''MyCorrelationID''\<rparr>"

section \<open>How the functions extend the trace\<close>

subsection \<open>Reading functions and concatenation\<close>

lemma sent_append: "sent (a @ b) = sent a @ sent b"
  by (induction a rule: sent.induct) simp_all

lemma flows_append: "flows (a @ b) = flows a @ flows b"
  by (induction a rule: flows.induct) simp_all

lemma sessions_append: "sessions (a @ b) = sessions a @ sessions b"
  by (induction a rule: sessions.induct) simp_all

lemma sent_calls: "sent (calls tr) = sent tr"
  by (induction tr rule: sent.induct) (simp_all add: calls_def)

lemma flows_calls: "flows (calls tr) = flows tr"
  by (induction tr rule: flows.induct) (simp_all add: calls_def)

lemma timer_calls: "list_ex isSetTimeout (calls tr) = list_ex isSetTimeout tr"
  by (induction tr rule: sent.induct) (simp_all add: calls_def)

lemma exit_calls: "ProcessExit \<in> set (calls tr) \<longleftrightarrow> ProcessExit \<in> set tr"
  by (auto simp: calls_def)

lemma calls_logged: "calls (logged env tr line # ys) = calls ys"
  by (simp add: calls_def logged_def)

lemma calls_simps:
  "calls [] = []"
  "calls (SessionSend sess m # ys) = SessionSend sess m # calls ys"
  "calls (SessionDisconnect sess # ys) = SessionDisconnect sess # calls ys"
  "calls (SetTimeout ms # ys) = SetTimeout ms # calls ys"
  "calls (Dispatch ev # ys) = Dispatch ev # calls ys"
  "calls (a @ b) = calls a @ calls b"
  by (simp_all add: calls_def)

lemma sent_Nil_no_send: "sent tr = [] \<Longrightarrow> SessionSend sess m \<notin> set tr"
  by (induction tr rule: sent.induct) auto

subsection \<open>The functions both samples share\<close>

text \<open>
  Each function extends the trace; what it appends is given exactly, or through \<open>calls\<close>
  where the console lines do not matter.
\<close>

lemma effects_log: "effects (log env line p) = effects p @ [logged env (effects p) line]"
  by (simp add: log_def logged_def)

lemma session_log: "session (log env line p) = session p"
  by (simp add: log_def)

lemma correlationID_log: "correlationID (log env line r) = correlationID r"
  by (simp add: log_def)

lemma session_connectToSolace:
  "session (connectToSolace env host username pass vpn p) = Some (length (sessions (effects p)))"
  by (simp add: connectToSolace_def Let_def effects_log session_log logged_def sessions_append
           split: option.splits)

lemma effects_disconnect:
  "\<exists>new. effects (disconnect env p) = effects p @ new
     \<and> calls new = (case session p of Some sess \<Rightarrow> [SessionDisconnect sess] | None \<Rightarrow> [])
     \<and> hd new = logged env (effects p) ''Disconnecting from Solace message router...''"
  by (simp add: disconnect_def Let_def effects_log session_log calls_logged calls_simps
        split: option.splits)

lemma session_disconnect: "session (disconnect env p) = session p"
  by (simp add: disconnect_def Let_def effects_log session_log split: option.splits)

lemma correlationID_disconnect: "correlationID (disconnect env r) = correlationID r"
  by (simp add: disconnect_def Let_def correlationID_log split: option.splits)

lemma effects_exit:
  "\<exists>new. effects (exit env p) = effects p @ new
     \<and> calls new = (case session p of Some sess \<Rightarrow> [SessionDisconnect sess] | None \<Rightarrow> []) @
                   [SetTimeout 1000]
     \<and> hd new = logged env (effects p) ''Disconnecting from Solace message router...''"
proof -
  obtain new where new: "effects (disconnect env p) = effects p @ new"
    "calls new = (case session p of Some sess \<Rightarrow> [SessionDisconnect sess] | None \<Rightarrow> [])"
    "hd new = logged env (effects p) ''Disconnecting from Solace message router...''"
    using effects_disconnect by blast
  have "new \<noteq> []" using new(1) by (auto simp: disconnect_def Let_def effects_log split: option.splits)
  then have "hd (new @ [SetTimeout 1000]) = hd new" by simp
  then show ?thesis using new
    by (intro exI [of _ "new @ [SetTimeout 1000]"]) (simp add: exit_def Let_def calls_simps)
qed

lemma session_exit: "session (exit env p) = session p"
  by (simp add: exit_def Let_def session_disconnect)

lemma silent_exit: "\<exists>new. effects (exit env p) = effects p @ new \<and> sent new = [] \<and> flows new = []"
proof -
  obtain new where new: "effects (exit env p) = effects p @ new"
    "calls new = (case session p of Some sess \<Rightarrow> [SessionDisconnect sess] | None \<Rightarrow> []) @
                   [SetTimeout 1000]"
    using effects_exit by blast
  have "sent (calls new) = []" "flows (calls new) = []"
    unfolding new(2) by (simp_all split: option.splits)
  then show ?thesis using new(1) by (auto simp: sent_calls flows_calls)
qed

lemma silent_onDisconnected:
  "\<exists>new. effects (onDisconnected env p) = effects p @ new \<and> sent new = []"
  by (simp add: onDisconnected_def Let_def effects_log session_log logged_def split: option.splits)

subsection \<open>The producer\<close>

lemma effects_sendMessage:
  "effects (sendMessage env p) =
     (case session p of
        None \<Rightarrow> effects p @
          [logged env (effects p) ''Cannot send messages because not connected to Solace message router.'']
      | Some sess \<Rightarrow>
          (let tr = effects p @
                 [logged env (effects p)
                    (''Sending message '' @ [CHR 0x22] @ ''Sample Message'' @ [CHR 0x22] @
                     '' to queue '' @ [CHR 0x22] @ queueName p @ [CHR 0x22] @ ''...''),
                  SessionSend sess ((createMessage env)\<lparr>destination := Some (Destination (queueName p) QUEUE),
                     binaryAttachment := Some ''Sample Message'', deliveryMode := PERSISTENT\<rparr>)]
           in tr @ [logged env tr (case throws env tr of None \<Rightarrow> ''Message sent.''
                                                       | Some error \<Rightarrow> error)]))"
  by (simp add: sendMessage_def Let_def effects_log session_log log_def
        setDestination_def setBinaryAttachment_def setDeliveryMode_def logged_def
        split: option.splits)

lemma session_sendMessage: "session (sendMessage env p) = session p"
  by (simp add: sendMessage_def Let_def session_log log_def split: option.splits)

lemma effects_producer_onUpNotice:
  "\<exists>new. effects (producer_onUpNotice env p) = effects p @ new
     \<and> calls new =
         (case session p of
            Some sess \<Rightarrow>
              [SessionSend sess ((createMessage env)\<lparr>destination := Some (Destination (queueName p) QUEUE),
                 binaryAttachment := Some ''Sample Message'', deliveryMode := PERSISTENT\<rparr>),
               SessionDisconnect sess]
          | None \<Rightarrow> []) @ [SetTimeout 1000]"
proof -
  let ?p1 = "log env ''=== Successfully connected and ready to send messages. ==='' p"
  let ?p2 = "sendMessage env ?p1"
  have eq: "producer_onUpNotice env p = exit env ?p2"
    by (simp add: producer_onUpNotice_def Let_def)
  obtain new where new: "effects (exit env ?p2) = effects ?p2 @ new"
    "calls new = (case session ?p2 of Some sess \<Rightarrow> [SessionDisconnect sess] | None \<Rightarrow> []) @
                 [SetTimeout 1000]"
    using effects_exit by blast
  have s: "session ?p2 = session p" by (simp add: session_sendMessage session_log)
  have q: "queueName ?p1 = queueName p" by (simp add: log_def)
  obtain mid where mid: "effects ?p2 = effects p @ mid"
    "calls mid = (case session p of
            Some sess \<Rightarrow>
              [SessionSend sess ((createMessage env)\<lparr>destination := Some (Destination (queueName p) QUEUE),
                 binaryAttachment := Some ''Sample Message'', deliveryMode := PERSISTENT\<rparr>)]
          | None \<Rightarrow> [])"
    by (cases "session p")
       (simp_all add: effects_sendMessage session_log effects_log q Let_def calls_logged calls_simps)
  show ?thesis
    using new mid unfolding eq s
    by (intro exI [of _ "mid @ new"]) (simp add: calls_simps split: option.splits)
qed

lemma producer_main_connected:
  assumes "2 + 4 \<le> length argv"
  shows "session (producer_main env argv) = Some 0"
    and "length (sessions (effects (producer_main env argv))) = 1"
    and "ProcessExit \<notin> set (effects (producer_main env argv))"
    and "queueName (producer_main env argv) = ''tutorial/queue''"
    and "sent (effects (producer_main env argv)) = []"
  using assms
  by (simp_all add: producer_main_def producer_run_def producer_connect_def QueueProducer_def
        connectToSolace_def Let_def log_def sessions_append sent_append split: option.splits)

lemma producer_main_sent: "sent (effects (producer_main env argv)) = []"
  by (simp add: producer_main_def producer_run_def producer_connect_def QueueProducer_def
        connectToSolace_def Let_def log_def sent_append split: option.splits)

lemma producer_step_shape:
  "\<exists>new. effects (producer_step env ev p) = effects p @ new
     \<and> list_all (\<lambda>m. deliveryMode m = PERSISTENT) (sent new)"
proof (cases "ProcessExit \<in> set (effects p)")
  case True
  then show ?thesis by (simp add: producer_step_def)
next
  case alive: False
  show ?thesis
  proof (cases ev)
    case (SessionEmit sess code)
    let ?p0 = "p\<lparr>effects := effects p @ [Dispatch ev]\<rparr>"
    obtain n1 where n1: "effects (producer_onUpNotice env ?p0) = effects ?p0 @ n1"
      "calls n1 =
          (case session ?p0 of
             Some sess \<Rightarrow>
               [SessionSend sess ((createMessage env)\<lparr>destination := Some (Destination (queueName ?p0) QUEUE),
                  binaryAttachment := Some ''Sample Message'', deliveryMode := PERSISTENT\<rparr>),
                SessionDisconnect sess]
           | None \<Rightarrow> []) @ [SetTimeout 1000]"
      using effects_producer_onUpNotice by blast
    have "list_all (\<lambda>m. deliveryMode m = PERSISTENT) (sent (calls n1))"
      unfolding n1(2) by (simp add: sent_append split: option.splits)
    then have s1: "list_all (\<lambda>m. deliveryMode m = PERSISTENT) (sent n1)"
      by (simp add: sent_calls)
    obtain n2 where n2: "effects (onDisconnected env ?p0) = effects ?p0 @ n2" "sent n2 = []"
      using silent_onDisconnected by blast
    show ?thesis
      using alive SessionEmit n1(1) s1 n2
      by (cases code; cases "sess < length (sessions (effects p))")
         (simp_all add: producer_step_def)
  qed (simp_all add: producer_step_def onTimer_def alive)
qed

lemma producer_run_persistent:
  "list_all (\<lambda>m. deliveryMode m = PERSISTENT) (sent (effects p)) \<Longrightarrow>
   list_all (\<lambda>m. deliveryMode m = PERSISTENT)
     (sent (effects (foldl (\<lambda>p ev. producer_step env ev p) p evs)))"
proof (induction evs arbitrary: p)
  case Nil
  then show ?case by simp
next
  case (Cons ev evs)
  obtain new where "effects (producer_step env ev p) = effects p @ new"
    "list_all (\<lambda>m. deliveryMode m = PERSISTENT) (sent new)"
    using producer_step_shape by blast
  then have "list_all (\<lambda>m. deliveryMode m = PERSISTENT) (sent (effects (producer_step env ev p)))"
    using Cons.prems by (simp add: sent_append)
  then show ?case using Cons.IH by simp
qed

subsection \<open>The requestor\<close>

text \<open>
  A callback of the requestor either appends nothing that is sent, or it is the \<^verbatim>\<open>UP\<close> of
  an existing flow and appends one send, of the request built for that flow's queue.
\<close>

lemma effects_onFlowMessage:
  "\<exists>new. effects (onFlowMessage env message r) =
       effects r @
       logged env (effects r)
         (if getCorrelationId message = correlationID r
          then ''Received reply: '' @ [CHR 0x22] @ js_string (getBinaryAttachment message) @
               [CHR 0x22] @ '', details:'' @ [CHR 0x0A] @ dump env message
          else ''Received reply but correlation ID didn't match: '' @ [CHR 0x22] @
               js_string (getBinaryAttachment message) @ [CHR 0x22] @ '', details:'' @
               [CHR 0x0A] @ dump env message) # new
     \<and> calls new = (case session r of Some sess \<Rightarrow> [SessionDisconnect sess] | None \<Rightarrow> []) @
                   [SetTimeout 1000]"
proof -
  let ?r1 = "if getCorrelationId message = correlationID r
             then log env (''Received reply: '' @ [CHR 0x22] @ js_string (getBinaryAttachment message) @
               [CHR 0x22] @ '', details:'' @ [CHR 0x0A] @ dump env message) r
             else log env (''Received reply but correlation ID didn't match: '' @ [CHR 0x22] @
               js_string (getBinaryAttachment message) @ [CHR 0x22] @ '', details:'' @
               [CHR 0x0A] @ dump env message) r"
  have eq: "onFlowMessage env message r = exit env ?r1"
    by (simp add: onFlowMessage_def Let_def)
  obtain new where new: "effects (exit env ?r1) = effects ?r1 @ new"
    "calls new = (case session ?r1 of Some sess \<Rightarrow> [SessionDisconnect sess] | None \<Rightarrow> []) @
                 [SetTimeout 1000]"
    using effects_exit by blast
  have s: "session ?r1 = session r" by (simp add: session_log)
  show ?thesis
    using new unfolding eq s
    by (intro exI [of _ new]) (simp add: effects_log)
qed

lemma session_onFlowMessage: "session (onFlowMessage env message r) = session r"
  by (simp add: onFlowMessage_def Let_def session_exit session_log)

lemma correlationID_onFlowMessage: "correlationID (onFlowMessage env message r) = correlationID r"
  by (simp add: onFlowMessage_def Let_def exit_def correlationID_disconnect correlationID_log)

lemma silent_onFlowMessage:
  "\<exists>new. effects (onFlowMessage env message r) = effects r @ new \<and> sent new = [] \<and> flows new = []"
proof -
  let ?r1 = "if getCorrelationId message = correlationID r
             then log env (''Received reply: '' @ [CHR 0x22] @ js_string (getBinaryAttachment message) @
               [CHR 0x22] @ '', details:'' @ [CHR 0x0A] @ dump env message) r
             else log env (''Received reply but correlation ID didn't match: '' @ [CHR 0x22] @
               js_string (getBinaryAttachment message) @ [CHR 0x22] @ '', details:'' @
               [CHR 0x0A] @ dump env message) r"
  have eq: "onFlowMessage env message r = exit env ?r1"
    by (simp add: onFlowMessage_def Let_def)
  obtain new where new: "effects (exit env ?r1) = effects ?r1 @ new" "sent new = []" "flows new = []"
    using silent_exit by blast
  obtain l where l: "effects ?r1 = effects r @ [ConsoleLog l]"
    by (cases "getCorrelationId message = correlationID r") (simp_all add: effects_log logged_def)
  show ?thesis
    unfolding eq new(1) l using new(2,3) by simp
qed

lemma silent_requestor_onUpNotice:
  "\<exists>new. effects (requestor_onUpNotice env r) = effects r @ new \<and> sent new = []"
  by (simp add: requestor_onUpNotice_def request_def Let_def effects_log session_log logged_def
        split: option.splits)

lemma step_FlowMessage:
  assumes "flow < length (flows (effects r))" and "ProcessExit \<notin> set (effects r)"
  shows "requestor_step env (FlowMessage flow message) r =
           onFlowMessage env message (r\<lparr>effects := effects r @ [Dispatch (FlowMessage flow message)]\<rparr>)"
  using assms by (simp add: requestor_step_def)

lemma requestor_step_shape:
  "(\<exists>new. effects (requestor_step env ev r) = effects r @ new \<and> sent new = [])
   \<or> (\<exists>flow sess line rest.
         ev = FlowUp flow \<and> flow < length (flows (effects r)) \<and>
         effects (requestor_step env ev r) =
           effects r @
           [Dispatch (FlowUp flow), ConsoleLog line,
            SessionSend sess ((createMessage env)\<lparr>
              destination := Some (Destination (requestQueueName r) QUEUE),
              binaryAttachment := Some ''Sample Request'',
              replyTo := Some (flows (effects r) ! flow),
              correlationId := Some ''MyCorrelationID'',
              deliveryMode := PERSISTENT\<rparr>)] @ rest \<and>
         sent rest = [])"
proof (cases "ProcessExit \<in> set (effects r)")
  case True
  then show ?thesis by (simp add: requestor_step_def)
next
  case alive: False
  show ?thesis
  proof (cases ev)
    case (SessionEmit sess code)
    let ?r0 = "r\<lparr>effects := effects r @ [Dispatch ev]\<rparr>"
    obtain n1 where n1: "effects (requestor_onUpNotice env ?r0) = effects ?r0 @ n1" "sent n1 = []"
      using silent_requestor_onUpNotice by blast
    obtain n2 where n2: "effects (onDisconnected env ?r0) = effects ?r0 @ n2" "sent n2 = []"
      using silent_onDisconnected by blast
    show ?thesis
      using alive SessionEmit n1 n2
      by (cases code; cases "sess < length (sessions (effects r))")
         (simp_all add: requestor_step_def onConnecting_def effects_log logged_def)
  next
    case (FlowUp flow)
    show ?thesis
    proof (cases "flow < length (flows (effects r))")
      case False
      then show ?thesis using alive FlowUp by (simp add: requestor_step_def)
    next
      case True
      then show ?thesis
        using alive FlowUp
        by (cases "session r")
           (simp_all add: requestor_step_def onFlowUp_def Let_def effects_log session_log log_def
              logged_def setDestination_def setBinaryAttachment_def setReplyTo_def
              setCorrelationId_def setDeliveryMode_def split: option.splits)
    qed
  next
    case (FlowMessage flow message)
    let ?r0 = "r\<lparr>effects := effects r @ [Dispatch ev]\<rparr>"
    obtain n where n: "effects (onFlowMessage env message ?r0) = effects ?r0 @ n" "sent n = []"
      using silent_onFlowMessage by blast
    show ?thesis
      using alive FlowMessage n
      by (cases "flow < length (flows (effects r))") (simp_all add: requestor_step_def)
  next
    case TimerFired
    then show ?thesis
      using alive by (simp add: requestor_step_def onTimer_def)
  qed
qed

lemma requestor_step_sent:
  "\<exists>ms. sent (effects (requestor_step env ev r)) = sent (effects r) @ ms
     \<and> list_all (\<lambda>m. deliveryMode m = PERSISTENT \<and> correlationId m = Some ''MyCorrelationID'') ms"
  using requestor_step_shape [of env ev r]
  by (elim disjE exE conjE) (simp_all add: sent_append)

lemma requestor_run_sent:
  "list_all (\<lambda>m. deliveryMode m = PERSISTENT \<and> correlationId m = Some ''MyCorrelationID'')
     (sent (effects r)) \<Longrightarrow>
   list_all (\<lambda>m. deliveryMode m = PERSISTENT \<and> correlationId m = Some ''MyCorrelationID'')
     (sent (effects (foldl (\<lambda>r ev. requestor_step env ev r) r evs)))"
proof (induction evs arbitrary: r)
  case Nil
  then show ?case by simp
next
  case (Cons ev evs)
  obtain ms where "sent (effects (requestor_step env ev r)) = sent (effects r) @ ms"
    "list_all (\<lambda>m. deliveryMode m = PERSISTENT \<and> correlationId m = Some ''MyCorrelationID'') ms"
    using requestor_step_sent by blast
  then have "list_all (\<lambda>m. deliveryMode m = PERSISTENT \<and> correlationId m = Some ''MyCorrelationID'')
               (sent (effects (requestor_step env ev r)))"
    using Cons.prems by simp
  then show ?case using Cons.IH by simp
qed

lemma requestor_main_sent: "sent (effects (requestor_main env argv)) = []"
  by (simp add: requestor_main_def requestor_run_def requestor_connect_def GuaranteedRequestor_def
        connectToSolace_def Let_def log_def sent_append split: option.splits)

lemma correlationID_step:
  "correlationID (requestor_step env ev r) = correlationID r
   \<or> correlationID (requestor_step env ev r) = Some ''MyCorrelationID''"
proof (cases ev)
  case (SessionEmit sess code)
  then show ?thesis
    by (cases code)
       (simp_all add: requestor_step_def requestor_onUpNotice_def request_def onConnecting_def
          onDisconnected_def Let_def log_def split: option.splits)
next
  case (FlowUp flow)
  then show ?thesis
    by (simp add: requestor_step_def onFlowUp_def Let_def log_def split: option.splits)
next
  case (FlowMessage flow message)
  then show ?thesis
    by (simp add: requestor_step_def correlationID_onFlowMessage)
next
  case TimerFired
  then show ?thesis by (simp add: requestor_step_def onTimer_def)
qed

lemma correlationID_run:
  "correlationID r = None \<or> correlationID r = Some ''MyCorrelationID'' \<Longrightarrow>
   correlationID (foldl (\<lambda>r ev. requestor_step env ev r) r evs) = None
   \<or> correlationID (foldl (\<lambda>r ev. requestor_step env ev r) r evs) = Some ''MyCorrelationID''"
proof (induction evs arbitrary: r)
  case Nil
  then show ?case by simp
next
  case (Cons ev evs)
  have "correlationID (requestor_step env ev r) = None
        \<or> correlationID (requestor_step env ev r) = Some ''MyCorrelationID''"
    using correlationID_step [of env ev r] Cons.prems by auto
  then show ?case using Cons.IH by simp
qed

lemma correlationID_main: "correlationID (requestor_main env argv) = None"
  by (simp add: requestor_main_def requestor_run_def requestor_connect_def GuaranteedRequestor_def
        connectToSolace_def Let_def log_def split: option.splits)

subsection \<open>Sends come after the flow is up\<close>

lemma ubs_silent:
  assumes "up_before_send tr" and "sent new = []"
  shows "up_before_send (tr @ new)"
  unfolding up_before_send_def
proof (intro allI impI)
  fix pre sess m post
  assume eq: "tr @ new = pre @ SessionSend sess m # post"
  then obtain us where "(tr = pre @ us \<and> us @ new = SessionSend sess m # post)
                      \<or> (tr @ us = pre \<and> new = us @ SessionSend sess m # post)"
    by (auto simp: append_eq_append_conv2)
  moreover have "SessionSend sess m \<notin> set new"
    using assms(2) by (rule sent_Nil_no_send)
  ultimately obtain us' where "tr = pre @ SessionSend sess m # us'"
    by (cases us) auto
  then show "\<exists>flow < length (flows pre).
            Dispatch (FlowUp flow) \<in> set pre \<and> replyTo m = Some (flows pre ! flow)"
    using assms(1) unfolding up_before_send_def by blast
qed

lemma ubs_send:
  assumes "up_before_send tr"
    and "flow < length (flows tr)" and "Dispatch (FlowUp flow) \<in> set tr"
    and "replyTo m = Some (flows tr ! flow)"
  shows "up_before_send (tr @ [SessionSend sess m])"
  unfolding up_before_send_def
proof (intro allI impI)
  fix pre sess' m' post
  assume eq: "tr @ [SessionSend sess m] = pre @ SessionSend sess' m' # post"
  show "\<exists>flow < length (flows pre).
            Dispatch (FlowUp flow) \<in> set pre \<and> replyTo m' = Some (flows pre ! flow)"
  proof (cases post rule: rev_cases)
    case Nil
    then have "pre = tr" "m' = m" using eq by simp_all
    then show ?thesis using assms(2-4) by blast
  next
    case (snoc post' x)
    then have "tr = pre @ SessionSend sess' m' # post'" using eq by simp
    then show ?thesis using assms(1) unfolding up_before_send_def by blast
  qed
qed

lemma ubs_step:
  assumes "up_before_send (effects r)"
  shows "up_before_send (effects (requestor_step env ev r))"
proof -
  let ?M = "\<lambda>flow. (createMessage env)\<lparr>
              destination := Some (Destination (requestQueueName r) QUEUE),
              binaryAttachment := Some ''Sample Request'',
              replyTo := Some (flows (effects r) ! flow),
              correlationId := Some ''MyCorrelationID'',
              deliveryMode := PERSISTENT\<rparr>"
  consider (silent) new where "effects (requestor_step env ev r) = effects r @ new" "sent new = []"
    | (send) flow sess line rest where "flow < length (flows (effects r))"
        "effects (requestor_step env ev r) =
           effects r @ [Dispatch (FlowUp flow), ConsoleLog line, SessionSend sess (?M flow)] @ rest"
        "sent rest = []"
    using requestor_step_shape [of env ev r] by blast
  then show ?thesis
  proof cases
    case silent
    then show ?thesis using assms by (simp add: ubs_silent)
  next
    case send
    let ?tr = "effects r @ [Dispatch (FlowUp flow), ConsoleLog line]"
    have 1: "up_before_send ?tr"
      using assms by (rule ubs_silent) simp
    have f: "flow < length (flows ?tr)" "Dispatch (FlowUp flow) \<in> set ?tr"
      "replyTo (?M flow) = Some (flows ?tr ! flow)"
      using send(1) by (simp_all add: flows_append nth_append)
    have 2: "up_before_send (?tr @ [SessionSend sess (?M flow)])"
      using 1 f by (rule ubs_send)
    have "up_before_send ((?tr @ [SessionSend sess (?M flow)]) @ rest)"
      using 2 send(3) by (rule ubs_silent)
    then show ?thesis using send(2) by simp
  qed
qed

lemma ubs_run:
  "up_before_send (effects r) \<Longrightarrow>
   up_before_send (effects (foldl (\<lambda>r ev. requestor_step env ev r) r evs))"
  by (induction evs arbitrary: r) (simp_all add: ubs_step)

lemma ubs_main: "up_before_send (effects (requestor_main env argv))"
  using ubs_silent [of "[]" "effects (requestor_main env argv)"]
  by (simp add: requestor_main_sent up_before_send_def)

subsection \<open>The concrete executions\<close>

lemma timestamp_quiet: "timestamp (10, 51, 7) = ''[10:51:07] ''"
  by code_simp

lemma now_quiet: "now quiet_sdk tr = (10, 51, 7)" "now failing_sdk tr = (10, 51, 7)"
  by (simp_all add: quiet_sdk_def failing_sdk_def)

lemma waiting_trace:
  "calls (effects (requestor_exec quiet_sdk argv4 [SessionEmit 0 UP_NOTICE, FlowUp 0])) =
     [CreateSession \<lparr>url = ''ws://localhost:8008'', vpnName = ''default'',
                      userName = ''user'', password = ''secret''\<rparr>,
      SessionConnect 0, Dispatch (SessionEmit 0 UP_NOTICE), CreateTemporaryQueue 0,
      CreateSubscriberFlow 0 (Destination ''#P2P/QTMP/0'' TEMPORARY_QUEUE), FlowConnect 0,
      Dispatch (FlowUp 0),
      SessionSend 0 \<lparr>destination = Some (Destination ''tutorial/requestqueue'' QUEUE),
                      binaryAttachment = Some ''Sample Request'', deliveryMode = PERSISTENT,
                      replyTo = Some (Destination ''#P2P/QTMP/0'' TEMPORARY_QUEUE),
                      correlationId = Some ''MyCorrelationID''\<rparr>]"
  by code_simp

lemma waiting_fields:
  "session (requestor_exec quiet_sdk argv4 [SessionEmit 0 UP_NOTICE, FlowUp 0]) = Some 0"
  "correlationID (requestor_exec quiet_sdk argv4 [SessionEmit 0 UP_NOTICE, FlowUp 0]) =
     Some ''MyCorrelationID''"
  by code_simp+

lemma waiting_flows:
  "flows (effects (requestor_exec quiet_sdk argv4 [SessionEmit 0 UP_NOTICE, FlowUp 0])) =
     [Destination ''#P2P/QTMP/0'' TEMPORARY_QUEUE]"
  by code_simp

section \<open>Start-up\<close>

text \<open>
  C7. With fewer than the four arguments after \<^verbatim>\<open>node\<close> and the script name, \<^verbatim>\<open>run\<close> of
  either sample prints the usage line and does nothing else: the session field is
  untouched, and the whole script has only printed and holds no session.
\<close>

theorem run_without_arguments:
  assumes "length argv < 2 + 4"
  shows "effects (producer_run env argv p) = effects p @
           [logged env (effects p) ''Cannot connect: expecting all arguments <host:port> <client-username> <client-password> <message-vpn>.'']
       \<and> session (producer_run env argv p) = session p
       \<and> effects (requestor_run env argv r) = effects r @
           [logged env (effects r) ''Cannot connect: expecting all arguments <host:port> <client-username> <client-password> <message-vpn>.'']
       \<and> session (requestor_run env argv r) = session r
       \<and> session (producer_main env argv) = None
       \<and> list_all isConsoleLog (effects (producer_main env argv))
       \<and> session (requestor_main env argv) = None
       \<and> list_all isConsoleLog (effects (requestor_main env argv))"
  using assms
  by (simp add: producer_run_def requestor_run_def producer_main_def requestor_main_def
        QueueProducer_def GuaranteedRequestor_def effects_log session_log logged_def)

theorem run_without_arguments_witness:
  "length argv2 < 2 + 4
   \<and> session (producer_main quiet_sdk argv2) = None
   \<and> sessions (effects (producer_main quiet_sdk argv2)) = []
   \<and> session (requestor_main quiet_sdk argv2) = None
   \<and> sessions (effects (requestor_main quiet_sdk argv2)) = []
   \<and> effects (requestor_run failing_sdk argv2 (GuaranteedRequestor failing_sdk ''q'')) =
       effects (GuaranteedRequestor failing_sdk ''q'') @
       [ConsoleLog ''[10:51:07] Cannot connect: expecting all arguments <host:port> <client-username> <client-password> <message-vpn>.'']"
  using run_without_arguments [of argv2 quiet_sdk "QueueProducer quiet_sdk ''tutorial/queue''"
          "GuaranteedRequestor quiet_sdk ''tutorial/requestqueue''"]
        run_without_arguments [of argv2 failing_sdk "QueueProducer quiet_sdk ''tutorial/queue''"
          "GuaranteedRequestor failing_sdk ''q''"]
  by (simp add: argv2_def producer_main_def requestor_main_def QueueProducer_def
        GuaranteedRequestor_def log_def logged_def now_quiet timestamp_quiet
        producer_run_def requestor_run_def)

text \<open>
  C9. \<^verbatim>\<open>connect\<close> on a sample whose session field is not null prints one line and does
  nothing else: the field keeps its value and no session is created. Calling \<^verbatim>\<open>connect\<close>
  a second time therefore leaves the session field and the sessions created as the first
  call left them, from any state.
\<close>

theorem connect_when_connected:
  "(session p \<noteq> None \<longrightarrow>
      session (producer_connect env host username pass vpn p) = session p
    \<and> effects (producer_connect env host username pass vpn p) =
        effects p @ [logged env (effects p) ''Already connected and ready to send messages.''])
   \<and> (session r \<noteq> None \<longrightarrow>
      session (requestor_connect env host username pass vpn r) = session r
    \<and> correlationID (requestor_connect env host username pass vpn r) = correlationID r
    \<and> effects (requestor_connect env host username pass vpn r) =
        effects r @ [logged env (effects r) ''Already connected and ready to send requests.''])
   \<and> session (producer_connect env host' username' pass' vpn'
                (producer_connect env host username pass vpn p)) =
      session (producer_connect env host username pass vpn p)
   \<and> sessions (effects (producer_connect env host' username' pass' vpn'
                (producer_connect env host username pass vpn p))) =
      sessions (effects (producer_connect env host username pass vpn p))
   \<and> session (requestor_connect env host' username' pass' vpn'
                (requestor_connect env host username pass vpn r)) =
      session (requestor_connect env host username pass vpn r)
   \<and> sessions (effects (requestor_connect env host' username' pass' vpn'
                (requestor_connect env host username pass vpn r))) =
      sessions (effects (requestor_connect env host username pass vpn r))"
  by (simp add: producer_connect_def requestor_connect_def effects_log session_log log_def
        session_connectToSolace sessions_append logged_def)

theorem connect_when_connected_witness:
  "session connected_producer \<noteq> None
   \<and> session (producer_connect quiet_sdk ''h'' ''u'' ''p'' ''v'' connected_producer) = Some 0
   \<and> effects (producer_connect quiet_sdk ''h'' ''u'' ''p'' ''v'' connected_producer) =
       [ConsoleLog ''[10:51:07] Already connected and ready to send messages.'']
   \<and> session (requestor_connect quiet_sdk ''h'' ''u'' ''p'' ''v'' (idle_requestor\<lparr>session := Some 3\<rparr>)) = Some 3
   \<and> effects (requestor_connect quiet_sdk ''h'' ''u'' ''p'' ''v'' (idle_requestor\<lparr>session := Some 3\<rparr>)) =
       [ConsoleLog ''[10:51:07] Already connected and ready to send requests.'']"
  using connect_when_connected [of connected_producer quiet_sdk "''h''" "''u''" "''p''" "''v''"
          "idle_requestor\<lparr>session := Some 3\<rparr>"]
  by (simp add: connected_producer_def idle_requestor_def logged_def now_quiet timestamp_quiet)

section \<open>Sending\<close>

text \<open>
  C4. With a null session field, \<^verbatim>\<open>sendMessage\<close> and \<^verbatim>\<open>request\<close> print that the sample is
  not connected and hand nothing to the library. The requestor's deferred send, in the
  flow's \<^verbatim>\<open>UP\<close> listener, fails with a \<^verbatim>\<open>TypeError\<close> before anything is sent.
\<close>

theorem send_without_session:
  "(session p = None \<longrightarrow>
      effects (sendMessage env p) = effects p @
        [logged env (effects p) ''Cannot send messages because not connected to Solace message router.'']
    \<and> sent (effects (sendMessage env p)) = sent (effects p)
    \<and> session (sendMessage env p) = None)
   \<and> (session r = None \<longrightarrow>
      effects (request env r) = effects r @
        [logged env (effects r) ''Cannot send request because not connected to Solace message router.'']
    \<and> sent (effects (request env r)) = sent (effects r)
    \<and> flows (effects (request env r)) = flows (effects r)
    \<and> session (request env r) = None)
   \<and> (session r = None \<longrightarrow>
      fst (onFlowUp env replyToQueue r) = Some TypeError
    \<and> sent (effects (snd (onFlowUp env replyToQueue r))) = sent (effects r))"
  by (simp add: sendMessage_def request_def onFlowUp_def Let_def effects_log session_log
        sent_append flows_append logged_def)

theorem send_without_session_witness:
  "session (connected_producer\<lparr>session := None\<rparr>) = None
   \<and> effects (sendMessage quiet_sdk (connected_producer\<lparr>session := None\<rparr>)) =
        [ConsoleLog ''[10:51:07] Cannot send messages because not connected to Solace message router.'']
   \<and> session idle_requestor = None
   \<and> effects (request quiet_sdk idle_requestor) =
        [ConsoleLog ''[10:51:07] Cannot send request because not connected to Solace message router.'']
   \<and> fst (onFlowUp quiet_sdk (Destination ''#P2P/QTMP/0'' TEMPORARY_QUEUE) idle_requestor) = Some TypeError
   \<and> sent (effects (snd (onFlowUp quiet_sdk (Destination ''#P2P/QTMP/0'' TEMPORARY_QUEUE) idle_requestor))) = []"
  using send_without_session [of "connected_producer\<lparr>session := None\<rparr>" quiet_sdk idle_requestor
          "Destination ''#P2P/QTMP/0'' TEMPORARY_QUEUE"]
  by (simp add: connected_producer_def idle_requestor_def logged_def now_quiet timestamp_quiet)

text \<open>
  C6. On a producer for \<^verbatim>\<open>'tutorial/queue'\<close> with a session, \<^verbatim>\<open>sendMessage\<close> prints the
  sending line, calls \<^verbatim>\<open>session.send\<close> exactly once, with a message whose delivery mode
  is persistent, whose destination is the queue \<^verbatim>\<open>tutorial/queue\<close> and whose attachment is
  \<^verbatim>\<open>Sample Message\<close>, and prints one more line; when the library accepts the send that
  line is \<^verbatim>\<open>Message sent.\<close>. The function has no failing outcome. Run as the script
  with four arguments, the producer has sent exactly that one message once the session's
  \<^verbatim>\<open>UP_NOTICE\<close> has been served.
\<close>

theorem sendOnce_tutorial_queue:
  "(session p = Some sess \<and> queueName p = ''tutorial/queue'' \<longrightarrow>
      (\<exists>m line. effects (sendMessage env p) = effects p @
           [logged env (effects p)
              (''Sending message '' @ [CHR 0x22] @ ''Sample Message'' @ [CHR 0x22] @
               '' to queue '' @ [CHR 0x22] @ ''tutorial/queue'' @ [CHR 0x22] @ ''...''),
            SessionSend sess m, ConsoleLog line]
         \<and> deliveryMode m = PERSISTENT
         \<and> destination m = Some (Destination ''tutorial/queue'' QUEUE)
         \<and> binaryAttachment m = Some ''Sample Message''
         \<and> sent (effects (sendMessage env p)) = sent (effects p) @ [m])
    \<and> (throws env (butlast (effects (sendMessage env p))) = None \<longrightarrow>
         last (effects (sendMessage env p)) =
           logged env (butlast (effects (sendMessage env p))) ''Message sent.''))
   \<and> (2 + 4 \<le> length argv \<longrightarrow>
      (\<exists>m. sent (effects (producer_exec env argv [SessionEmit 0 UP_NOTICE])) = [m]
         \<and> deliveryMode m = PERSISTENT
         \<and> destination m = Some (Destination ''tutorial/queue'' QUEUE)
         \<and> binaryAttachment m = Some ''Sample Message''))"
proof (intro conjI impI)
  assume a: "session p = Some sess \<and> queueName p = ''tutorial/queue''"
  let ?m = "(createMessage env)\<lparr>destination := Some (Destination ''tutorial/queue'' QUEUE),
              binaryAttachment := Some ''Sample Message'', deliveryMode := PERSISTENT\<rparr>"
  show "\<exists>m line. effects (sendMessage env p) = effects p @
           [logged env (effects p)
              (''Sending message '' @ [CHR 0x22] @ ''Sample Message'' @ [CHR 0x22] @
               '' to queue '' @ [CHR 0x22] @ ''tutorial/queue'' @ [CHR 0x22] @ ''...''),
            SessionSend sess m, ConsoleLog line]
         \<and> deliveryMode m = PERSISTENT
         \<and> destination m = Some (Destination ''tutorial/queue'' QUEUE)
         \<and> binaryAttachment m = Some ''Sample Message''
         \<and> sent (effects (sendMessage env p)) = sent (effects p) @ [m]"
    using a
    by (intro exI [of _ ?m]) (simp add: effects_sendMessage Let_def logged_def sent_append)
  show "last (effects (sendMessage env p)) =
           logged env (butlast (effects (sendMessage env p))) ''Message sent.''"
    if "throws env (butlast (effects (sendMessage env p))) = None"
    using a that by (simp add: effects_sendMessage Let_def butlast_append)
next
  assume n: "2 + 4 \<le> length argv"
  let ?p0 = "producer_main env argv"
  let ?p1 = "log env ''=== Successfully connected and ready to send messages. ===''
               (?p0\<lparr>effects := effects ?p0 @ [Dispatch (SessionEmit 0 UP_NOTICE)]\<rparr>)"
  have step: "producer_exec env argv [SessionEmit 0 UP_NOTICE] = exit env (sendMessage env ?p1)"
    using producer_main_connected [OF n, of env]
    by (simp add: producer_exec_def producer_step_def producer_onUpNotice_def Let_def)
  have s: "session ?p1 = Some 0" "queueName ?p1 = ''tutorial/queue''"
    "sent (effects ?p1) = []"
    using producer_main_connected [OF n, of env]
    by (simp_all add: session_log log_def sent_append)
  obtain new where new: "effects (exit env (sendMessage env ?p1)) = effects (sendMessage env ?p1) @ new"
    "calls new = (case session (sendMessage env ?p1) of Some sess \<Rightarrow> [SessionDisconnect sess]
                  | None \<Rightarrow> []) @ [SetTimeout 1000]"
    using effects_exit by blast
  have "sent new = sent (calls new)"
    by (induction new rule: sent.induct) (simp_all add: calls_def)
  then have sn: "sent new = []"
    using new(2) s by (simp add: session_sendMessage)
  show "\<exists>m. sent (effects (producer_exec env argv [SessionEmit 0 UP_NOTICE])) = [m]
         \<and> deliveryMode m = PERSISTENT
         \<and> destination m = Some (Destination ''tutorial/queue'' QUEUE)
         \<and> binaryAttachment m = Some ''Sample Message''"
    unfolding step new(1)
    using s sn
    by (simp add: sent_append effects_sendMessage Let_def logged_def)
qed


theorem sendOnce_tutorial_queue_witness:
  "session connected_producer = Some 0 \<and> queueName connected_producer = ''tutorial/queue''
   \<and> throws quiet_sdk (butlast (effects (sendMessage quiet_sdk connected_producer))) = None
   \<and> 2 + 4 \<le> length argv4
   \<and> effects (sendMessage quiet_sdk connected_producer) =
       [ConsoleLog (''[10:51:07] Sending message '' @ [CHR 0x22] @ ''Sample Message'' @ [CHR 0x22] @
                    '' to queue '' @ [CHR 0x22] @ ''tutorial/queue'' @ [CHR 0x22] @ ''...''),
        SessionSend 0 \<lparr>destination = Some (Destination ''tutorial/queue'' QUEUE),
                        binaryAttachment = Some ''Sample Message'', deliveryMode = PERSISTENT,
                        replyTo = None, correlationId = None\<rparr>,
        ConsoleLog ''[10:51:07] Message sent.'']
   \<and> (\<exists>m. sent (effects (producer_exec quiet_sdk argv4 [SessionEmit 0 UP_NOTICE])) = [m]
         \<and> deliveryMode m = PERSISTENT
         \<and> destination m = Some (Destination ''tutorial/queue'' QUEUE)
         \<and> binaryAttachment m = Some ''Sample Message'')"
proof -
  have q: "throws quiet_sdk = (\<lambda>tr. None)" "createMessage quiet_sdk = blank"
    by (simp_all add: quiet_sdk_def)
  have e: "effects (sendMessage quiet_sdk connected_producer) =
       [ConsoleLog (''[10:51:07] Sending message '' @ [CHR 0x22] @ ''Sample Message'' @ [CHR 0x22] @
                    '' to queue '' @ [CHR 0x22] @ ''tutorial/queue'' @ [CHR 0x22] @ ''...''),
        SessionSend 0 \<lparr>destination = Some (Destination ''tutorial/queue'' QUEUE),
                        binaryAttachment = Some ''Sample Message'', deliveryMode = PERSISTENT,
                        replyTo = None, correlationId = None\<rparr>,
        ConsoleLog ''[10:51:07] Message sent.'']"
    by (simp add: effects_sendMessage connected_producer_def Let_def logged_def now_quiet
          timestamp_quiet q blank_def)
  have n: "2 + 4 \<le> length argv4" by (simp add: argv4_def)
  show ?thesis
    using sendOnce_tutorial_queue [of connected_producer 0 quiet_sdk argv4] e n
    by (simp add: q connected_producer_def)
qed

section \<open>Shutting down\<close>

text \<open>
  C8. Whatever the library does and whatever the session field holds, the producer's
  \<^verbatim>\<open>UP_NOTICE\<close> listener, after its send, and the requestor's \<^verbatim>\<open>MESSAGE\<close> listener, after
  its reply, call \<^verbatim>\<open>session.disconnect\<close> (when there is a session) and then arm a timer
  of 1000 ms as their last action; \<^verbatim>\<open>exit\<close> begins with the disconnecting line and ends
  with the timer. When the timer fires the process exits, and after that no callback has
  any effect.
\<close>

theorem exit_after_completion:
  "(\<exists>new. effects (producer_onUpNotice env p) = effects p @ new
      \<and> calls new =
          (case session p of
             Some sess \<Rightarrow>
               [SessionSend sess ((createMessage env)\<lparr>destination := Some (Destination (queueName p) QUEUE),
                  binaryAttachment := Some ''Sample Message'', deliveryMode := PERSISTENT\<rparr>),
                SessionDisconnect sess]
           | None \<Rightarrow> []) @ [SetTimeout 1000])
   \<and> (\<exists>new. effects (onFlowMessage env message r) = effects r @ new
      \<and> calls new = (case session r of Some sess \<Rightarrow> [SessionDisconnect sess] | None \<Rightarrow> []) @
                    [SetTimeout 1000])
   \<and> (\<exists>new. effects (exit env p) = effects p @ new
      \<and> hd new = logged env (effects p) ''Disconnecting from Solace message router...''
      \<and> last new = SetTimeout 1000)
   \<and> (list_ex isSetTimeout (effects p) \<and> ProcessExit \<notin> set (effects p) \<longrightarrow>
        effects (producer_step env TimerFired p) = effects p @ [Dispatch TimerFired, ProcessExit])
   \<and> (list_ex isSetTimeout (effects r) \<and> ProcessExit \<notin> set (effects r) \<longrightarrow>
        effects (requestor_step env TimerFired r) = effects r @ [Dispatch TimerFired, ProcessExit])
   \<and> (ProcessExit \<in> set (effects p) \<longrightarrow> producer_step env ev p = p)
   \<and> (ProcessExit \<in> set (effects r) \<longrightarrow> requestor_step env ev r = r)"
proof (intro conjI)
  show "\<exists>new. effects (producer_onUpNotice env p) = effects p @ new
      \<and> calls new =
          (case session p of
             Some sess \<Rightarrow>
               [SessionSend sess ((createMessage env)\<lparr>destination := Some (Destination (queueName p) QUEUE),
                  binaryAttachment := Some ''Sample Message'', deliveryMode := PERSISTENT\<rparr>),
                SessionDisconnect sess]
           | None \<Rightarrow> []) @ [SetTimeout 1000]"
    by (rule effects_producer_onUpNotice)
  show "\<exists>new. effects (onFlowMessage env message r) = effects r @ new
      \<and> calls new = (case session r of Some sess \<Rightarrow> [SessionDisconnect sess] | None \<Rightarrow> []) @
                    [SetTimeout 1000]"
    using effects_onFlowMessage [of env message r] by (auto simp: calls_logged)
  show "\<exists>new. effects (exit env p) = effects p @ new
      \<and> hd new = logged env (effects p) ''Disconnecting from Solace message router...''
      \<and> last new = SetTimeout 1000"
  proof -
    obtain new where new: "effects (disconnect env p) = effects p @ new"
      "hd new = logged env (effects p) ''Disconnecting from Solace message router...''"
      using effects_disconnect by blast
    have "new \<noteq> []"
      using new(1) by (auto simp: disconnect_def Let_def effects_log split: option.splits)
    then show ?thesis
      using new by (intro exI [of _ "new @ [SetTimeout 1000]"]) (simp add: exit_def Let_def)
  qed
qed (simp_all add: producer_step_def requestor_step_def onTimer_def)

theorem exit_after_completion_witness:
  "calls (effects (producer_onUpNotice failing_sdk connected_producer)) =
     [SessionSend 0 \<lparr>destination = Some (Destination ''tutorial/queue'' QUEUE),
                     binaryAttachment = Some ''Sample Message'', deliveryMode = PERSISTENT,
                     replyTo = None, correlationId = None\<rparr>,
      SessionDisconnect 0, SetTimeout 1000]
   \<and> calls (effects (onFlowMessage failing_sdk good_reply idle_requestor)) = [SetTimeout 1000]
   \<and> effects (producer_step failing_sdk TimerFired (producer_onUpNotice failing_sdk connected_producer)) =
       effects (producer_onUpNotice failing_sdk connected_producer) @ [Dispatch TimerFired, ProcessExit]"
proof -
  have c: "createMessage failing_sdk = blank"
    by (simp add: failing_sdk_def quiet_sdk_def)
  have s: "session connected_producer = Some 0" "effects connected_producer = []"
    "queueName connected_producer = ''tutorial/queue''"
    "session idle_requestor = None" "effects idle_requestor = []"
    by (simp_all add: connected_producer_def idle_requestor_def)
  note t = exit_after_completion [of failing_sdk connected_producer good_reply idle_requestor]
  note t' = exit_after_completion [of failing_sdk "producer_onUpNotice failing_sdk connected_producer"]
  have 1: "calls (effects (producer_onUpNotice failing_sdk connected_producer)) =
     [SessionSend 0 \<lparr>destination = Some (Destination ''tutorial/queue'' QUEUE),
                     binaryAttachment = Some ''Sample Message'', deliveryMode = PERSISTENT,
                     replyTo = None, correlationId = None\<rparr>,
      SessionDisconnect 0, SetTimeout 1000]"
    using t by (auto simp: s c blank_def)
  have 2: "calls (effects (onFlowMessage failing_sdk good_reply idle_requestor)) = [SetTimeout 1000]"
    using t by (auto simp: s)
  have 3: "list_ex isSetTimeout (effects (producer_onUpNotice failing_sdk connected_producer))"
    "ProcessExit \<notin> set (effects (producer_onUpNotice failing_sdk connected_producer))"
    using timer_calls [of "effects (producer_onUpNotice failing_sdk connected_producer)"]
      exit_calls [of "effects (producer_onUpNotice failing_sdk connected_producer)"]
    unfolding 1 by simp_all
  show ?thesis using 1 2 3 t' by simp
qed

section \<open>Replies\<close>

text \<open>
  C10. While the process is alive, any message on an existing reply flow, whatever its
  correlation identifier, makes the requestor print one line, call
  \<^verbatim>\<open>session.disconnect\<close> (when there is a session) and arm the 1000 ms exit timer; the
  session field and the stored correlation identifier are unchanged, and the timer's
  expiry ends the process.
\<close>

theorem first_reply_ends_requestor:
  "flow < length (flows (effects r)) \<and> ProcessExit \<notin> set (effects r) \<longrightarrow>
     (\<exists>line new.
         effects (requestor_step env (FlowMessage flow message) r) =
           effects r @ Dispatch (FlowMessage flow message) # ConsoleLog line # new
       \<and> calls new = (case session r of Some sess \<Rightarrow> [SessionDisconnect sess] | None \<Rightarrow> []) @
                     [SetTimeout 1000])
     \<and> session (requestor_step env (FlowMessage flow message) r) = session r
     \<and> correlationID (requestor_step env (FlowMessage flow message) r) = correlationID r
     \<and> list_ex isSetTimeout (effects (requestor_step env (FlowMessage flow message) r))
     \<and> effects (requestor_step env TimerFired (requestor_step env (FlowMessage flow message) r)) =
         effects (requestor_step env (FlowMessage flow message) r) @ [Dispatch TimerFired, ProcessExit]"
proof (intro impI, elim conjE)
  assume f: "flow < length (flows (effects r))" and x: "ProcessExit \<notin> set (effects r)"
  let ?r0 = "r\<lparr>effects := effects r @ [Dispatch (FlowMessage flow message)]\<rparr>"
  let ?r' = "requestor_step env (FlowMessage flow message) r"
  have st: "?r' = onFlowMessage env message ?r0"
    using f x by (rule step_FlowMessage)
  obtain new where new: "effects (onFlowMessage env message ?r0) =
       effects ?r0 @
       logged env (effects ?r0)
         (if getCorrelationId message = correlationID ?r0
          then ''Received reply: '' @ [CHR 0x22] @ js_string (getBinaryAttachment message) @
               [CHR 0x22] @ '', details:'' @ [CHR 0x0A] @ dump env message
          else ''Received reply but correlation ID didn't match: '' @ [CHR 0x22] @
               js_string (getBinaryAttachment message) @ [CHR 0x22] @ '', details:'' @
               [CHR 0x0A] @ dump env message) # new"
     "calls new = (case session ?r0 of Some sess \<Rightarrow> [SessionDisconnect sess] | None \<Rightarrow> []) @
                   [SetTimeout 1000]"
    using effects_onFlowMessage by blast
  have cn: "calls new = (case session r of Some sess \<Rightarrow> [SessionDisconnect sess] | None \<Rightarrow> []) @
                   [SetTimeout 1000]"
    using new(2) by simp
  have 1: "\<exists>line new.
         effects ?r' = effects r @ Dispatch (FlowMessage flow message) # ConsoleLog line # new
       \<and> calls new = (case session r of Some sess \<Rightarrow> [SessionDisconnect sess] | None \<Rightarrow> []) @
                     [SetTimeout 1000]"
    unfolding st new(1) using cn by (simp add: logged_def)
  have "list_ex isSetTimeout (calls new)" "ProcessExit \<notin> set (calls new)"
    unfolding cn by (simp_all split: option.splits)
  then have tn: "list_ex isSetTimeout new" "ProcessExit \<notin> set new"
    by (simp_all add: timer_calls exit_calls)
  have 2: "list_ex isSetTimeout (effects ?r')"
    unfolding st new(1) using tn by simp
  have 3: "ProcessExit \<notin> set (effects ?r')"
    unfolding st new(1) using tn x by (simp add: logged_def)
  have 4: "effects (requestor_step env TimerFired ?r') = effects ?r' @ [Dispatch TimerFired, ProcessExit]"
    using 2 3 by (simp add: requestor_step_def onTimer_def)
  show "(\<exists>line new.
         effects ?r' = effects r @ Dispatch (FlowMessage flow message) # ConsoleLog line # new
       \<and> calls new = (case session r of Some sess \<Rightarrow> [SessionDisconnect sess] | None \<Rightarrow> []) @
                     [SetTimeout 1000])
     \<and> session ?r' = session r
     \<and> correlationID ?r' = correlationID r
     \<and> list_ex isSetTimeout (effects ?r')
     \<and> effects (requestor_step env TimerFired ?r') = effects ?r' @ [Dispatch TimerFired, ProcessExit]"
    using 1 2 4 by (simp add: st session_onFlowMessage correlationID_onFlowMessage)
qed

theorem first_reply_ends_requestor_witness:
  "0 < length (flows (effects (requestor_exec quiet_sdk argv4 [SessionEmit 0 UP_NOTICE, FlowUp 0])))
   \<and> ProcessExit \<notin> set (effects (requestor_exec quiet_sdk argv4 [SessionEmit 0 UP_NOTICE, FlowUp 0]))
   \<and> getCorrelationId stale_reply \<noteq>
       correlationID (requestor_exec quiet_sdk argv4 [SessionEmit 0 UP_NOTICE, FlowUp 0])
   \<and> (\<exists>line new.
         effects (requestor_exec quiet_sdk argv4
                    [SessionEmit 0 UP_NOTICE, FlowUp 0, FlowMessage 0 stale_reply]) =
           effects (requestor_exec quiet_sdk argv4 [SessionEmit 0 UP_NOTICE, FlowUp 0]) @
           Dispatch (FlowMessage 0 stale_reply) # ConsoleLog line # new
       \<and> calls new = [SessionDisconnect 0, SetTimeout 1000])
   \<and> ProcessExit \<in> set (effects (requestor_exec quiet_sdk argv4
                    [SessionEmit 0 UP_NOTICE, FlowUp 0, FlowMessage 0 stale_reply, TimerFired]))"
proof -
  let ?r = "requestor_exec quiet_sdk argv4 [SessionEmit 0 UP_NOTICE, FlowUp 0]"
  have x: "ProcessExit \<notin> set (effects ?r)"
    using exit_calls [of "effects ?r"] unfolding waiting_trace by simp
  have e1: "requestor_exec quiet_sdk argv4 [SessionEmit 0 UP_NOTICE, FlowUp 0, FlowMessage 0 stale_reply]
          = requestor_step quiet_sdk (FlowMessage 0 stale_reply) ?r"
    by (simp add: requestor_exec_def)
  have e2: "requestor_exec quiet_sdk argv4
              [SessionEmit 0 UP_NOTICE, FlowUp 0, FlowMessage 0 stale_reply, TimerFired]
          = requestor_step quiet_sdk TimerFired (requestor_step quiet_sdk (FlowMessage 0 stale_reply) ?r)"
    by (simp add: requestor_exec_def)
  have c: "getCorrelationId stale_reply \<noteq> correlationID ?r"
    unfolding waiting_fields by (simp add: getCorrelationId_def stale_reply_def)
  show ?thesis
    using first_reply_ends_requestor [of 0 ?r quiet_sdk stale_reply] x c
    unfolding e1 e2 by (simp add: waiting_flows waiting_fields)
qed


text \<open>
  C2 as stated: an unmatched reply is logged and discarded, and the request it did not
  match stays pending. The requestor that has sent its request is pending; after a reply
  with another correlation identifier it is not.
\<close>

theorem unmatched_reply_counterexample:
  "getCorrelationId stale_reply \<noteq>
     correlationID (requestor_exec quiet_sdk argv4 [SessionEmit 0 UP_NOTICE, FlowUp 0])
   \<and> still_pending (requestor_exec quiet_sdk argv4 [SessionEmit 0 UP_NOTICE, FlowUp 0])
   \<and> \<not> still_pending (requestor_exec quiet_sdk argv4
                          [SessionEmit 0 UP_NOTICE, FlowUp 0, FlowMessage 0 stale_reply])"
  by code_simp

text \<open>
  C2, as the code has it. A reply whose correlation identifier differs from the one the
  requestor holds is printed with the mismatch line, no exception leaves the listener,
  and the requestor then disconnects and arms the exit timer as it does for a matching
  reply: it is no longer waiting.
\<close>

theorem unmatched_reply_logged_then_exit:
  "getCorrelationId message \<noteq> correlationID r \<and> flow < length (flows (effects r))
   \<and> ProcessExit \<notin> set (effects r) \<longrightarrow>
     (\<exists>new.
         effects (requestor_step env (FlowMessage flow message) r) =
           effects r @
           [Dispatch (FlowMessage flow message),
            logged env (effects r @ [Dispatch (FlowMessage flow message)])
              (''Received reply but correlation ID didn't match: '' @ [CHR 0x22] @
               js_string (getBinaryAttachment message) @ [CHR 0x22] @ '', details:'' @
               [CHR 0x0A] @ dump env message)] @ new
       \<and> calls new = (case session r of Some sess \<Rightarrow> [SessionDisconnect sess] | None \<Rightarrow> []) @
                     [SetTimeout 1000])
     \<and> \<not> still_pending (requestor_step env (FlowMessage flow message) r)"
proof (intro impI, elim conjE)
  assume c: "getCorrelationId message \<noteq> correlationID r"
    and f: "flow < length (flows (effects r))" and x: "ProcessExit \<notin> set (effects r)"
  let ?r0 = "r\<lparr>effects := effects r @ [Dispatch (FlowMessage flow message)]\<rparr>"
  let ?r' = "requestor_step env (FlowMessage flow message) r"
  have st: "?r' = onFlowMessage env message ?r0"
    using f x by (rule step_FlowMessage)
  obtain new where new: "effects (onFlowMessage env message ?r0) =
       effects ?r0 @
       logged env (effects ?r0)
         (if getCorrelationId message = correlationID ?r0
          then ''Received reply: '' @ [CHR 0x22] @ js_string (getBinaryAttachment message) @
               [CHR 0x22] @ '', details:'' @ [CHR 0x0A] @ dump env message
          else ''Received reply but correlation ID didn't match: '' @ [CHR 0x22] @
               js_string (getBinaryAttachment message) @ [CHR 0x22] @ '', details:'' @
               [CHR 0x0A] @ dump env message) # new"
     "calls new = (case session ?r0 of Some sess \<Rightarrow> [SessionDisconnect sess] | None \<Rightarrow> []) @
                   [SetTimeout 1000]"
    using effects_onFlowMessage by blast
  have cn: "calls new = (case session r of Some sess \<Rightarrow> [SessionDisconnect sess] | None \<Rightarrow> []) @
                   [SetTimeout 1000]"
    using new(2) by simp
  have "list_ex isSetTimeout (calls new)"
    unfolding cn by (simp split: option.splits)
  then have "list_ex isSetTimeout new"
    by (simp add: timer_calls)
  then have np: "\<not> still_pending ?r'"
    unfolding st still_pending_def new(1) by simp
  show "(\<exists>new.
         effects ?r' =
           effects r @
           [Dispatch (FlowMessage flow message),
            logged env (effects r @ [Dispatch (FlowMessage flow message)])
              (''Received reply but correlation ID didn't match: '' @ [CHR 0x22] @
               js_string (getBinaryAttachment message) @ [CHR 0x22] @ '', details:'' @
               [CHR 0x0A] @ dump env message)] @ new
       \<and> calls new = (case session r of Some sess \<Rightarrow> [SessionDisconnect sess] | None \<Rightarrow> []) @
                     [SetTimeout 1000])
     \<and> \<not> still_pending ?r'"
    using np cn c unfolding st new(1) by simp
qed

theorem unmatched_reply_logged_then_exit_witness:
  "getCorrelationId stale_reply \<noteq>
     correlationID (requestor_exec failing_sdk argv4 [SessionEmit 0 UP_NOTICE, FlowUp 0])
   \<and> 0 < length (flows (effects (requestor_exec failing_sdk argv4 [SessionEmit 0 UP_NOTICE, FlowUp 0])))
   \<and> ProcessExit \<notin> set (effects (requestor_exec failing_sdk argv4 [SessionEmit 0 UP_NOTICE, FlowUp 0]))
   \<and> \<not> still_pending (requestor_step failing_sdk (FlowMessage 0 stale_reply)
         (requestor_exec failing_sdk argv4 [SessionEmit 0 UP_NOTICE, FlowUp 0]))"
proof -
  let ?r = "requestor_exec failing_sdk argv4 [SessionEmit 0 UP_NOTICE, FlowUp 0]"
  have h: "getCorrelationId stale_reply \<noteq> correlationID ?r"
    "0 < length (flows (effects ?r))" "ProcessExit \<notin> set (effects ?r)"
    by code_simp+
  show ?thesis
    using unmatched_reply_logged_then_exit [of stale_reply ?r 0 failing_sdk] h by simp
qed

section \<open>Requests\<close>

text \<open>
  C5. In every execution of the requestor script, for any library behaviour and any
  sequence of callbacks: wherever the trace has a \<^verbatim>\<open>session.send\<close>, the part of the trace
  before it holds the creation of a subscriber flow on the queue that is the message's
  reply-to, and the dispatch of that flow's \<^verbatim>\<open>UP\<close> event.
\<close>

theorem request_sent_after_flow_up:
  assumes "effects (requestor_exec env argv evs) = pre @ SessionSend sess m # post"
  shows "\<exists>flow < length (flows pre).
           Dispatch (FlowUp flow) \<in> set pre \<and> replyTo m = Some (flows pre ! flow)"
proof -
  have "up_before_send (effects (requestor_exec env argv evs))"
    unfolding requestor_exec_def using ubs_main by (rule ubs_run)
  then show ?thesis
    using assms unfolding up_before_send_def by blast
qed


theorem request_sent_after_flow_up_witness:
  "\<exists>pre. effects (requestor_exec quiet_sdk argv4 [SessionEmit 0 UP_NOTICE, FlowUp 0]) =
       pre @ SessionSend 0 \<lparr>destination = Some (Destination ''tutorial/requestqueue'' QUEUE),
                     binaryAttachment = Some ''Sample Request'', deliveryMode = PERSISTENT,
                     replyTo = Some (Destination ''#P2P/QTMP/0'' TEMPORARY_QUEUE),
                     correlationId = Some ''MyCorrelationID''\<rparr> # []
     \<and> (\<exists>flow < length (flows pre).
           Dispatch (FlowUp flow) \<in> set pre
         \<and> Some (Destination ''#P2P/QTMP/0'' TEMPORARY_QUEUE) = Some (flows pre ! flow))"
proof -
  let ?pre = "effects (requestor_exec quiet_sdk argv4 [SessionEmit 0 UP_NOTICE]) @
      [Dispatch (FlowUp 0),
       ConsoleLog (''[10:51:07] Sending request '' @ [CHR 0x22] @ ''Sample Request'' @ [CHR 0x22] @
                   '' to request queue '' @ [CHR 0x22] @ ''tutorial/requestqueue'' @ [CHR 0x22] @
                   ''...'')]"
  have e: "effects (requestor_exec quiet_sdk argv4 [SessionEmit 0 UP_NOTICE, FlowUp 0]) =
     ?pre @
     SessionSend 0 \<lparr>destination = Some (Destination ''tutorial/requestqueue'' QUEUE),
                     binaryAttachment = Some ''Sample Request'', deliveryMode = PERSISTENT,
                     replyTo = Some (Destination ''#P2P/QTMP/0'' TEMPORARY_QUEUE),
                     correlationId = Some ''MyCorrelationID''\<rparr> # []"
    by code_simp
  show ?thesis
    using request_sent_after_flow_up [OF e] e by (intro exI [of _ ?pre]) simp
qed

text \<open>
  C3. In every execution of either script, every message handed to \<^verbatim>\<open>session.send\<close> has
  delivery mode persistent; and from any state, a callback only adds persistent messages
  to those already sent.
\<close>

theorem sends_are_persistent:
  "(\<forall>m \<in> set (sent (effects (producer_exec env argv evs))). deliveryMode m = PERSISTENT)
   \<and> (\<forall>m \<in> set (sent (effects (requestor_exec env argv evs))). deliveryMode m = PERSISTENT)
   \<and> (\<forall>m \<in> set (sent (effects (producer_step env ev p))).
         m \<in> set (sent (effects p)) \<or> deliveryMode m = PERSISTENT)
   \<and> (\<forall>m \<in> set (sent (effects (requestor_step env ev r))).
         m \<in> set (sent (effects r)) \<or> deliveryMode m = PERSISTENT)"
proof (intro conjI)
  have "list_all (\<lambda>m. deliveryMode m = PERSISTENT) (sent (effects (producer_exec env argv evs)))"
    unfolding producer_exec_def by (rule producer_run_persistent) (simp add: producer_main_sent)
  then show "\<forall>m \<in> set (sent (effects (producer_exec env argv evs))). deliveryMode m = PERSISTENT"
    by (simp add: list_all_iff)
  have "list_all (\<lambda>m. deliveryMode m = PERSISTENT \<and> correlationId m = Some ''MyCorrelationID'')
          (sent (effects (requestor_exec env argv evs)))"
    unfolding requestor_exec_def by (rule requestor_run_sent) (simp add: requestor_main_sent)
  then show "\<forall>m \<in> set (sent (effects (requestor_exec env argv evs))). deliveryMode m = PERSISTENT"
    by (simp add: list_all_iff)
  show "\<forall>m \<in> set (sent (effects (producer_step env ev p))).
         m \<in> set (sent (effects p)) \<or> deliveryMode m = PERSISTENT"
    using producer_step_shape [of env ev p] by (auto simp: sent_append list_all_iff)
  show "\<forall>m \<in> set (sent (effects (requestor_step env ev r))).
         m \<in> set (sent (effects r)) \<or> deliveryMode m = PERSISTENT"
    using requestor_step_sent [of env ev r] by (auto simp: list_all_iff)
qed


theorem sends_are_persistent_witness:
  "sent (effects (producer_exec quiet_sdk argv4 [SessionEmit 0 UP_NOTICE])) \<noteq> []
   \<and> list_all (\<lambda>m. deliveryMode m = PERSISTENT)
        (sent (effects (producer_exec quiet_sdk argv4 [SessionEmit 0 UP_NOTICE])))
   \<and> sent (effects (requestor_exec quiet_sdk argv4 [SessionEmit 0 UP_NOTICE, FlowUp 0])) \<noteq> []
   \<and> list_all (\<lambda>m. deliveryMode m = PERSISTENT)
        (sent (effects (requestor_exec quiet_sdk argv4 [SessionEmit 0 UP_NOTICE, FlowUp 0])))"
proof -
  have n: "sent (effects (producer_exec quiet_sdk argv4 [SessionEmit 0 UP_NOTICE])) \<noteq> []"
    "sent (effects (requestor_exec quiet_sdk argv4 [SessionEmit 0 UP_NOTICE, FlowUp 0])) \<noteq> []"
    by code_simp+
  show ?thesis
    using n sends_are_persistent [of quiet_sdk argv4 "[SessionEmit 0 UP_NOTICE]"]
      sends_are_persistent [of quiet_sdk argv4 "[SessionEmit 0 UP_NOTICE, FlowUp 0]"]
    by (simp add: list_all_iff)
qed

text \<open>
  C1 as stated: the correlation identifier of each request is freshly generated, and no
  two outstanding requests of one reply listener share one. With the flow's \<^verbatim>\<open>UP\<close> listener
  run twice on the one flow the requestor has, two requests are out, no reply has come,
  and both carry the same identifier.
\<close>

theorem correlation_id_counterexample:
  "length (flows (effects (requestor_exec quiet_sdk argv4
             [SessionEmit 0 UP_NOTICE, FlowUp 0, FlowUp 0]))) = 1
   \<and> map correlationId (sent (effects (requestor_exec quiet_sdk argv4
             [SessionEmit 0 UP_NOTICE, FlowUp 0, FlowUp 0]))) =
       [Some ''MyCorrelationID'', Some ''MyCorrelationID'']
   \<and> \<not> distinct (map correlationId (sent (effects (requestor_exec quiet_sdk argv4
             [SessionEmit 0 UP_NOTICE, FlowUp 0, FlowUp 0]))))
   \<and> \<not> list_ex isSetTimeout (effects (requestor_exec quiet_sdk argv4
             [SessionEmit 0 UP_NOTICE, FlowUp 0, FlowUp 0]))"
  by code_simp

text \<open>
  C1, as the code has it. No identifier is generated: in every execution, every request
  sent carries the literal \<^verbatim>\<open>MyCorrelationID\<close>, which is also the only value the
  requestor's \<^verbatim>\<open>correlationID\<close> field takes once the \<^verbatim>\<open>UP\<close> listener has run.
\<close>

theorem fixed_correlation_id:
  "(\<forall>m \<in> set (sent (effects (requestor_exec env argv evs))).
       correlationId m = Some ''MyCorrelationID'')
   \<and> (correlationID (requestor_exec env argv evs) = None
      \<or> correlationID (requestor_exec env argv evs) = Some ''MyCorrelationID'')
   \<and> (snd (onFlowUp env replyToQueue r) = r' \<longrightarrow> correlationID r' = Some ''MyCorrelationID'')"
proof (intro conjI)
  have "list_all (\<lambda>m. deliveryMode m = PERSISTENT \<and> correlationId m = Some ''MyCorrelationID'')
          (sent (effects (requestor_exec env argv evs)))"
    unfolding requestor_exec_def by (rule requestor_run_sent) (simp add: requestor_main_sent)
  then show "\<forall>m \<in> set (sent (effects (requestor_exec env argv evs))).
       correlationId m = Some ''MyCorrelationID''"
    by (simp add: list_all_iff)
  show "correlationID (requestor_exec env argv evs) = None
      \<or> correlationID (requestor_exec env argv evs) = Some ''MyCorrelationID''"
    unfolding requestor_exec_def by (rule correlationID_run) (simp add: correlationID_main)
  show "snd (onFlowUp env replyToQueue r) = r' \<longrightarrow> correlationID r' = Some ''MyCorrelationID''"
    by (auto simp: onFlowUp_def Let_def log_def split: option.splits)
qed

theorem fixed_correlation_id_witness:
  "length (sent (effects (requestor_exec quiet_sdk argv4
             [SessionEmit 0 UP_NOTICE, FlowUp 0, FlowUp 0]))) = 2
   \<and> list_all (\<lambda>m. correlationId m = Some ''MyCorrelationID'')
        (sent (effects (requestor_exec quiet_sdk argv4
             [SessionEmit 0 UP_NOTICE, FlowUp 0, FlowUp 0])))
   \<and> correlationID (snd (onFlowUp quiet_sdk (Destination ''#P2P/QTMP/0'' TEMPORARY_QUEUE)
                           idle_requestor)) = Some ''MyCorrelationID''"
proof -
  have n: "length (sent (effects (requestor_exec quiet_sdk argv4
             [SessionEmit 0 UP_NOTICE, FlowUp 0, FlowUp 0]))) = 2"
    by code_simp
  show ?thesis
    using n fixed_correlation_id [of quiet_sdk argv4 "[SessionEmit 0 UP_NOTICE, FlowUp 0, FlowUp 0]"
      "Destination ''#P2P/QTMP/0'' TEMPORARY_QUEUE" idle_requestor
      "snd (onFlowUp quiet_sdk (Destination ''#P2P/QTMP/0'' TEMPORARY_QUEUE) idle_requestor)"]
    by (simp add: list_all_iff)
qed

end
